theory Spec2Isabelle
  imports Main "HOL-Library.Word"
begin

section \<open>Data of the auction client (src/app.js)\<close>

text \<open>
  A JavaScript string is a sequence of UTF-16 code units and \<open>.length\<close> counts them.
  Amounts are ethers \<open>BigNumber\<close>s: integers of unbounded size, signed (\<open>sub\<close> may go
  below zero). A module-level \<open>let x;\<close> starts as \<open>undefined\<close>, modelled by \<open>None\<close>.
\<close>

type_synonym jsstring = "16 word list"
type_synonym address = string

definition js :: "string \<Rightarrow> jsstring" where
  \<comment> \<open>an ASCII literal as code units\<close>
  "js s = map of_char s"

record bid =
  sender :: address
  amount :: int
  content :: jsstring

text \<open>The module's "state variables" (lines 16 to 21).\<close>

record auction_vars =
  endTimeValue :: "int option"
  currentBid :: "int option"
  lastBidder :: "address option"
  lastBidderName :: "jsstring option"
  lastMessage :: "jsstring option"

definition vars0 :: auction_vars where
  "vars0 = \<lparr>endTimeValue = None, currentBid = None, lastBidder = None,
            lastBidderName = None, lastMessage = None\<rparr>"

section \<open>Minimum bid (updateDisplay, contribute)\<close>

definition minIncrement :: int where
  \<comment> \<open>\<open>ethers.utils.parseEther("0.0004")\<close>, in wei\<close>
  "minIncrement = 400000000000000"

definition nextMinBid :: "int option \<Rightarrow> int" where
  \<comment> \<open>\<open>currentBid ? currentBid.add(minIncrement) : minIncrement\<close>; a BigNumber object is
      truthy whatever its value, so the test is whether \<open>currentBid\<close> was ever assigned\<close>
  "nextMinBid cur =
     (case cur of Some b \<Rightarrow> b + minIncrement | None \<Rightarrow> minIncrement)"

section \<open>Submission handlers (contribute, handleRegister)\<close>

datatype severity = Error | Warning | Success

datatype chain_write =
    Contribute jsstring int   \<comment> \<open>\<open>contract.contribute(message, {value: amountToSend})\<close>\<close>
  | Register jsstring         \<comment> \<open>\<open>contract.register(name)\<close>\<close>

datatype tx_reply =
    SendFailed string   \<comment> \<open>the awaited contract call rejects with this \<open>error.message\<close>\<close>
  | WaitFailed string   \<comment> \<open>the call returns a transaction, \<open>tx.wait()\<close> rejects\<close>
  | Mined               \<comment> \<open>\<open>tx.wait()\<close> resolves\<close>

record effects =
  writes :: "chain_write list"              \<comment> \<open>contract write calls made, in order\<close>
  statuses :: "(string \<times> severity) list"    \<comment> \<open>\<open>showStatus(message, type)\<close> calls, in order\<close>
  modal_closed :: bool                      \<comment> \<open>\<open>modal.style.display = 'none'\<close> was executed\<close>

record bid_modal =
  bidInput_min :: int    \<comment> \<open>\<open>bidInput.value\<close> and \<open>bidInput.min\<close> as first shown\<close>
  userFullBid :: int     \<comment> \<open>\<open>await contract.fullBids(userAddress)\<close>, captured by the handlers\<close>

definition contribute_open :: "auction_vars \<Rightarrow> int option \<Rightarrow> bid_modal option" where
  \<comment> \<open>\<open>contribute()\<close> after the wallet is connected, up to showing the modal; the second
      argument is the result of the \<open>fullBids\<close> read (\<open>None\<close>: the read rejects and the
      function stops there, no handler installed)\<close>
  "contribute_open st fullBids_read =
     (case fullBids_read of
        None \<Rightarrow> None
      | Some p \<Rightarrow> Some \<lparr>bidInput_min = nextMinBid (currentBid st), userFullBid = p\<rparr>)"

definition submitBid_onclick ::
  "(chain_write \<Rightarrow> tx_reply) \<Rightarrow> bid_modal \<Rightarrow> int option \<Rightarrow> jsstring \<Rightarrow> effects option" where
  \<comment> \<open>\<open>submitButton.onclick\<close> of the bid modal. Arguments: the chain's reply to a write,
      the modal whose \<open>userFullBid\<close> the closure captured, \<open>parseEther(bidInput.value)\<close>
      (\<open>None\<close>: it throws, and it is outside the \<open>try\<close>, so the handler ends with nothing
      shown), and \<open>messageInput.value\<close>.\<close>
  "submitBid_onclick chain modal bidInput message =
     (case bidInput of
        None \<Rightarrow> None
      | Some bidAmount \<Rightarrow>
          if length message > 256 then
            Some \<lparr>writes = [],
                  statuses = [(''Message too long (max 256 characters)'', Error)],
                  modal_closed = False\<rparr>
          else
            let amountToSend = bidAmount - userFullBid modal;
                w = Contribute message amountToSend
            in (case chain w of
                  SendFailed msg \<Rightarrow>
                    Some \<lparr>writes = [w], statuses = [(msg, Error)], modal_closed = False\<rparr>
                | WaitFailed msg \<Rightarrow>
                    Some \<lparr>writes = [w],
                          statuses = [(''Transaction submitted...'', Warning), (msg, Error)],
                          modal_closed = True\<rparr>
                | Mined \<Rightarrow>
                    Some \<lparr>writes = [w],
                          statuses = [(''Transaction submitted...'', Warning),
                                      (''Bid placed successfully!'', Success)],
                          modal_closed = True\<rparr>))"

definition is_js_whitespace :: "16 word \<Rightarrow> bool" where
  \<comment> \<open>the code units \<open>String.prototype.trim\<close> strips: ECMAScript WhiteSpace and
      LineTerminator (all of them in the basic plane)\<close>
  "is_js_whitespace c \<longleftrightarrow>
     c = 0x9 \<or> c = 0xA \<or> c = 0xB \<or> c = 0xC \<or> c = 0xD \<or> c = 0x20 \<or> c = 0xA0 \<or>
     c = 0x1680 \<or> (0x2000 \<le> c \<and> c \<le> 0x200A) \<or> c = 0x2028 \<or> c = 0x2029 \<or>
     c = 0x202F \<or> c = 0x205F \<or> c = 0x3000 \<or> c = 0xFEFF"

definition js_trim :: "jsstring \<Rightarrow> jsstring" where
  "js_trim s = rev (dropWhile is_js_whitespace (rev (dropWhile is_js_whitespace s)))"

definition submitName_onclick ::
  "(chain_write \<Rightarrow> tx_reply) \<Rightarrow> string option \<Rightarrow> jsstring \<Rightarrow> effects" where
  \<comment> \<open>\<open>submitButton.onclick\<close> of the register modal. Arguments: the chain's reply to a write,
      the outcome of the final \<open>await updateWalletDisplay()\<close> (\<open>Some msg\<close>: it throws, inside
      the \<open>try\<close>), and \<open>nameInput.value\<close>.\<close>
  "submitName_onclick chain refresh nameInput =
     (let name = js_trim nameInput in
      if name = [] then
        \<lparr>writes = [], statuses = [(''Please enter a name'', Error)], modal_closed = False\<rparr>
      else if length name > 32 then
        \<lparr>writes = [], statuses = [(''Name too long (max 32 characters)'', Error)],
         modal_closed = False\<rparr>
      else
        (case chain (Register name) of
           SendFailed msg \<Rightarrow>
             \<lparr>writes = [Register name], statuses = [(msg, Error)], modal_closed = False\<rparr>
         | WaitFailed msg \<Rightarrow>
             \<lparr>writes = [Register name],
              statuses = [(''Transaction submitted...'', Warning), (msg, Error)],
              modal_closed = True\<rparr>
         | Mined \<Rightarrow>
             \<lparr>writes = [Register name],
              statuses = [(''Transaction submitted...'', Warning),
                          (''Name registered successfully!'', Success)]
                         @ (case refresh of None \<Rightarrow> [] | Some msg \<Rightarrow> [(msg, Error)]),
              modal_closed = True\<rparr>))"

section \<open>Bid ingestion: the NewBid handler and the catch-up scan (initializeAuctionData)\<close>

text \<open>
  A delivered \<open>NewBid\<close> event: the four arguments the handler declares, and the
  transaction hash of the event object that ethers passes as a further argument, which
  the handler does not take.
\<close>

record newbid_event =
  nb_bidder :: address
  nb_amount :: int
  nb_content :: jsstring
  nb_bidIndex :: nat
  nb_transactionHash :: string

definition onNewBid :: "newbid_event \<Rightarrow> auction_vars \<Rightarrow> auction_vars" where
  \<comment> \<open>the synchronous part of the \<open>NewBid\<close> handler (lines 428 to 431)\<close>
  "onNewBid ev st =
     st\<lparr>lastBidder := Some (nb_bidder ev),
        currentBid := Some (nb_amount ev),
        lastMessage := Some (nb_content ev)\<rparr>"

definition onNewBid_name :: "jsstring \<Rightarrow> auction_vars \<Rightarrow> auction_vars" where
  \<comment> \<open>the \<open>then\<close> callback, run when \<open>addressToName(bidder)\<close> resolves (lines 432 to 435)\<close>
  "onNewBid_name name st = st\<lparr>lastBidderName := Some name\<rparr>"

definition applyBids :: "auction_vars \<Rightarrow> newbid_event list \<Rightarrow> auction_vars" where
  \<comment> \<open>a run of deliveries, first to last\<close>
  "applyBids st evs = foldl (\<lambda>s ev. onNewBid ev s) st evs"

text \<open>
  The chain as the client reads it: each read either resolves or rejects (\<open>None\<close>).
  One activation of an async function is modelled against one such chain.
\<close>

record chain =
  endTime_read :: "int option"
  bidHistory_read :: "nat \<Rightarrow> bid option"
  addressToName_read :: "address \<Rightarrow> jsstring option"

datatype chain_read = EndTime | BidHistory nat | AddressToName address

partial_function (option) scan_from ::
  "(nat \<Rightarrow> bid option) \<Rightarrow> nat \<Rightarrow> nat list \<Rightarrow> (nat \<times> nat list) option" where
  \<comment> \<open>the \<open>while (true)\<close> loop of lines 405 to 412 from a given \<open>latestIndex\<close>; the list
      collects the indices probed; no result when the loop never breaks\<close>
  "scan_from bidHistory latestIndex probes =
     (case bidHistory (latestIndex + 1) of
        Some _ \<Rightarrow> scan_from bidHistory (latestIndex + 1) (probes @ [latestIndex + 1])
      | None \<Rightarrow> Some (latestIndex, probes @ [latestIndex + 1]))"

definition catch_up :: "chain \<Rightarrow> auction_vars \<Rightarrow> (auction_vars \<times> chain_read list) option" where
  \<comment> \<open>the inner \<open>try\<close> of initializeAuctionData (lines 403 to 424): the scan from
      \<open>latestIndex = 0\<close>, the read of the latest record, the three assignments, the name
      read. A read that rejects after the scan ends the block (the \<open>catch\<close> only logs),
      keeping the assignments already made. Returns the variables and the reads issued.\<close>
  "catch_up ch st =
     (case scan_from (bidHistory_read ch) 0 [] of
        None \<Rightarrow> None
      | Some (latestIndex, probes) \<Rightarrow>
          (case bidHistory_read ch latestIndex of
             None \<Rightarrow> Some (st, map BidHistory probes @ [BidHistory latestIndex])
           | Some latestBid \<Rightarrow>
               let st1 = st\<lparr>lastBidder := Some (sender latestBid),
                             currentBid := Some (amount latestBid),
                             lastMessage := Some (content latestBid)\<rparr>;
                   reads = map BidHistory probes
                           @ [BidHistory latestIndex, AddressToName (sender latestBid)]
               in (case addressToName_read ch (sender latestBid) of
                     None \<Rightarrow> Some (st1, reads)
                   | Some name \<Rightarrow> Some (st1\<lparr>lastBidderName := Some name\<rparr>, reads))))"

section \<open>Countdown (startTimer)\<close>

definition toNumber :: "int \<Rightarrow> int option" where
  \<comment> \<open>\<open>BigNumber.toNumber()\<close>: the value as a JavaScript number; it throws (\<open>None\<close>) when
      the value does not fit in 53 bits\<close>
  "toNumber x = (if - (2 ^ 53) < x \<and> x < 2 ^ 53 then Some x else None)"

datatype timer_text =
    AuctionEnded              \<comment> \<open>the text "AUCTION ENDED"\<close>
  | Countdown int int int     \<comment> \<open>hours, minutes, seconds, shown as hh:mm:ss\<close>

record timer_view =
  timerText :: "timer_text option"    \<comment> \<open>\<open>timerElement.textContent\<close>, once written\<close>
  contributeDisabled :: bool          \<comment> \<open>\<open>disabled\<close> of the contribute button\<close>

definition view0 :: timer_view where
  "view0 = \<lparr>timerText = None, contributeDisabled = False\<rparr>"

definition updateTimer :: "int \<Rightarrow> int \<Rightarrow> timer_view \<Rightarrow> timer_view option" where
  \<comment> \<open>one run of \<open>updateTimer\<close> with \<open>endTimeValue\<close> and \<open>Date.now()\<close> (milliseconds);
      \<open>None\<close> when \<open>toNumber\<close> throws. Past the test \<open>remaining\<close> is positive, where
      \<open>Math.floor(a / b)\<close> and \<open>a % b\<close> are \<open>div\<close> and \<open>mod\<close>.\<close>
  "updateTimer endTime dateNow v =
     (let now = dateNow div 1000 in
      case toNumber endTime of
        None \<Rightarrow> None
      | Some endT \<Rightarrow>
          let remaining = endT - now in
          if remaining \<le> 0 then
            Some (v\<lparr>timerText := Some AuctionEnded, contributeDisabled := True\<rparr>)
          else
            Some (v\<lparr>timerText :=
                      Some (Countdown (remaining div 3600) (remaining mod 3600 div 60)
                              (remaining mod 60))\<rparr>))"

fun run_timer :: "int \<Rightarrow> int list \<Rightarrow> timer_view \<Rightarrow> timer_view list" where
  \<comment> \<open>the views after each tick of one timer with a fixed deadline, for the successive
      values of \<open>Date.now()\<close>; a tick that throws leaves the view as it was\<close>
  "run_timer endTime [] v = []"
| "run_timer endTime (t # ts) v =
     (case updateTimer endTime t v of
        None \<Rightarrow> v # run_timer endTime ts v
      | Some v' \<Rightarrow> v' # run_timer endTime ts v')"

section \<open>The pending-update queue (dataCache, processDataQueue, the DataUpdated handler)\<close>

text \<open>
  \<open>dataCache\<close>: the fields \<open>data\<close> and \<open>version\<close> of the literal are never read or written
  and are left out. A JavaScript \<open>Set\<close> iterates in insertion order, so
  \<open>pendingUpdates\<close> is a list without repetitions; \<open>processedTransactions\<close> is only
  tested for membership. \<open>isProcessing\<close> is absent from the literal, hence falsy at start.
\<close>

record data_cache =
  lastUpdate :: int
  pendingUpdates :: "int list"
  processedTransactions :: "string set"
  isProcessing :: bool

definition dataCache0 :: data_cache where
  "dataCache0 = \<lparr>lastUpdate = 0, pendingUpdates = [], processedTransactions = {},
                  isProcessing = False\<rparr>"

definition set_add :: "'a \<Rightarrow> 'a list \<Rightarrow> 'a list" where
  \<comment> \<open>\<open>Set.prototype.add\<close>\<close>
  "set_add x xs = (if x \<in> set xs then xs else xs @ [x])"

definition js_slice :: "'a list \<Rightarrow> nat \<Rightarrow> nat \<Rightarrow> 'a list" where
  \<comment> \<open>\<open>xs.slice(i, j)\<close> for \<open>0 \<le> i \<le> j\<close>\<close>
  "js_slice xs i j = take (j - i) (drop i xs)"

text \<open>
  \<open>processDataQueue\<close> is an async function: it runs until an \<open>await\<close>, is suspended
  there, and is resumed when the awaited promise settles; handlers of other events run
  in between. A suspended activation is a frame: its snapshot \<open>updates\<close>, its loop index
  \<open>i\<close>, and which of the two \<open>await\<close>s it is waiting at. The log records the snapshots
  taken, the batches whose fetch was started and the pauses started.
\<close>

datatype drain_wait = AwaitBatch | AwaitDelay

record drain_frame =
  updates :: "int list"
  pos :: nat
  waiting :: drain_wait

datatype action =
    Snapshot "int list"     \<comment> \<open>\<open>Array.from(pendingUpdates)\<close>, then \<open>clear()\<close>\<close>
  | FetchBatch "int list"   \<comment> \<open>\<open>Promise.all(batch.map(updateSingleItem))\<close>\<close>
  | Delay nat               \<comment> \<open>\<open>setTimeout(resolve, 100)\<close>\<close>

record drain_state =
  cache :: data_cache
  frames :: "drain_frame list"
  actions :: "action list"

definition drain0 :: drain_state where
  "drain0 = \<lparr>cache = dataCache0, frames = [], actions = []\<rparr>"

definition start_batch :: "nat \<Rightarrow> int list \<Rightarrow> nat \<Rightarrow> drain_state \<Rightarrow> drain_state" where
  \<comment> \<open>the body of the \<open>for\<close> loop at index \<open>i\<close>, up to its first \<open>await\<close> (lines 171, 172)\<close>
  "start_batch B us i s =
     s\<lparr>frames := frames s @ [\<lparr>updates = us, pos = i, waiting = AwaitBatch\<rparr>],
       actions := actions s @ [FetchBatch (js_slice us i (i + B))]\<rparr>"

definition set_isProcessing :: "bool \<Rightarrow> drain_state \<Rightarrow> drain_state" where
  "set_isProcessing b s = s\<lparr>cache := (cache s)\<lparr>isProcessing := b\<rparr>\<rparr>"

definition take_snapshot :: "nat \<Rightarrow> drain_state \<Rightarrow> drain_state" where
  \<comment> \<open>one turn of the \<open>while\<close> loop entered with a non-empty queue (lines 167 to 172): the
      snapshot, the \<open>clear\<close>, and the \<open>for\<close> loop from \<open>i = 0\<close>, whose test holds\<close>
  "take_snapshot B s =
     (let us = pendingUpdates (cache s);
          s1 = s\<lparr>cache := (cache s)\<lparr>pendingUpdates := []\<rparr>,
                 actions := actions s @ [Snapshot us]\<rparr>
      in start_batch B us 0 s1)"

definition processDataQueue :: "nat \<Rightarrow> drain_state \<Rightarrow> drain_state" where
  \<comment> \<open>a call of \<open>processDataQueue()\<close>, up to its first \<open>await\<close> or its return. With an empty
      queue the \<open>while\<close> loop is skipped and \<open>finally\<close> runs at once: it clears the flag
      and, the queue being empty, does not call again.\<close>
  "processDataQueue B s =
     (if isProcessing (cache s) then s
      else
        let s1 = set_isProcessing True s in
        if pendingUpdates (cache s1) \<noteq> [] then take_snapshot B s1
        else set_isProcessing False s1)"

definition finally_block :: "nat \<Rightarrow> drain_state \<Rightarrow> drain_state" where
  \<comment> \<open>lines 179 to 184\<close>
  "finally_block B s =
     (let s1 = set_isProcessing False s in
      if pendingUpdates (cache s1) \<noteq> [] then processDataQueue B s1 else s1)"

definition while_head :: "nat \<Rightarrow> drain_state \<Rightarrow> drain_state" where
  \<comment> \<open>the test of the \<open>while\<close> loop, reached again when the \<open>for\<close> loop is over\<close>
  "while_head B s =
     (if pendingUpdates (cache s) \<noteq> [] then take_snapshot B s else finally_block B s)"

definition for_step :: "nat \<Rightarrow> int list \<Rightarrow> nat \<Rightarrow> drain_state \<Rightarrow> drain_state" where
  \<comment> \<open>\<open>i += CONFIG.BATCH_SIZE\<close> and the test of the \<open>for\<close> loop\<close>
  "for_step B us i s =
     (let i' = i + B in
      if i' < length us then start_batch B us i' s else while_head B s)"

definition resume :: "nat \<Rightarrow> nat \<Rightarrow> bool \<Rightarrow> drain_state \<Rightarrow> drain_state" where
  \<comment> \<open>the promise awaited by frame number \<open>k\<close> settles: fulfilled (\<open>ok\<close>) or rejected; the
      pause never rejects. A rejected batch leaves the \<open>try\<close> through \<open>finally\<close>.\<close>
  "resume B k ok s =
     (if k < length (frames s) then
        let f = frames s ! k;
            s1 = s\<lparr>frames := take k (frames s) @ drop (Suc k) (frames s)\<rparr>
        in (case waiting f of
              AwaitBatch \<Rightarrow>
                if \<not> ok then finally_block B s1
                else if pos f + B < length (updates f) then
                  s1\<lparr>frames := frames s1 @ [f\<lparr>waiting := AwaitDelay\<rparr>],
                     actions := actions s1 @ [Delay 100]\<rparr>
                else for_step B (updates f) (pos f) s1
            | AwaitDelay \<Rightarrow> for_step B (updates f) (pos f) s1)
      else s)"

definition onDataUpdated :: "nat \<Rightarrow> int \<Rightarrow> string \<Rightarrow> drain_state \<Rightarrow> drain_state" where
  \<comment> \<open>the \<open>DataUpdated\<close> handler (lines 191 to 199) for \<open>id\<close> and
      \<open>event.transactionHash\<close>; when \<open>id.toNumber()\<close> throws the handler stops after having
      recorded the hash\<close>
  "onDataUpdated B ident txHash s =
     (if txHash \<in> processedTransactions (cache s) then s
      else
        let s1 = s\<lparr>cache := (cache s)\<lparr>processedTransactions :=
                                     insert txHash (processedTransactions (cache s))\<rparr>\<rparr>
        in (case toNumber ident of
              None \<Rightarrow> s1
            | Some n \<Rightarrow>
                processDataQueue B
                  (s1\<lparr>cache := (cache s1)\<lparr>pendingUpdates :=
                                         set_add n (pendingUpdates (cache s1))\<rparr>\<rparr>)))"

datatype drain_event =
    DataUpdatedEv int string   \<comment> \<open>a \<open>DataUpdated\<close> event reaches the handler\<close>
  | Settled nat bool           \<comment> \<open>the promise awaited by a frame settles\<close>

fun drain_step :: "nat \<Rightarrow> drain_event \<Rightarrow> drain_state \<Rightarrow> drain_state" where
  "drain_step B (DataUpdatedEv ident txHash) s = onDataUpdated B ident txHash s"
| "drain_step B (Settled k ok) s = resume B k ok s"

definition drain_run :: "nat \<Rightarrow> drain_event list \<Rightarrow> drain_state \<Rightarrow> drain_state" where
  "drain_run B evs s = foldl (\<lambda>s ev. drain_step B ev s) s evs"

text \<open>
  What a pass over one snapshot is expected to log, in the words of the specification:
  the snapshot is cut into consecutive batches of \<open>B\<close> items (the last one may be
  shorter), each batch is fetched, and a pause of 100 ms separates consecutive batches.
\<close>

function batches :: "nat \<Rightarrow> 'a list \<Rightarrow> 'a list list" where
  "batches B us = (if B = 0 \<or> us = [] then [] else take B us # batches B (drop B us))"
  by pat_completeness auto
termination
  by (relation "measure (\<lambda>(B, us). length us)") auto

declare batches.simps [simp del]





definition drain_inv :: "drain_state \<Rightarrow> bool" where
  \<comment> \<open>at most one activation is suspended, and the flag is set exactly when one is\<close>
  "drain_inv s \<longleftrightarrow> length (frames s) \<le> 1 \<and> (isProcessing (cache s) \<longleftrightarrow> frames s \<noteq> [])"

text \<open>Notions used in the proofs about the queue.\<close>

definition idle :: "drain_state \<Rightarrow> bool" where
  \<comment> \<open>no activation is suspended and the flag is clear\<close>
  "idle s \<longleftrightarrow> frames s = [] \<and> \<not> isProcessing (cache s)"

definition inside :: "drain_state \<Rightarrow> bool" where
  \<comment> \<open>the running activation holds the flag and is not suspended\<close>
  "inside s \<longleftrightarrow> frames s = [] \<and> isProcessing (cache s)"

definition busy :: "drain_state \<Rightarrow> bool" where
  \<comment> \<open>one activation is suspended and holds the flag\<close>
  "busy s \<longleftrightarrow> length (frames s) = 1 \<and> isProcessing (cache s)"


definition remaining :: "nat \<Rightarrow> drain_frame \<Rightarrow> action list" where
  \<comment> \<open>what is left of the expected log of the pass a frame is in\<close>
  "remaining B f =
     (let r = concat (map (\<lambda>c. [Delay 100, FetchBatch c])
                (batches B (drop (pos f + B) (updates f))))
      in case waiting f of AwaitBatch \<Rightarrow> r | AwaitDelay \<Rightarrow> tl r)"


section \<open>The client as a whole: contract objects, listeners, periodic refresh\<close>

text \<open>
  \<open>CONFIG\<close> is defined outside app.js; the two constants used below are parameters.
\<close>

record config =
  BATCH_SIZE :: nat
  CACHE_DURATION :: int

datatype event_name = NewBid | DataUpdated

text \<open>
  The global \<open>contract\<close> refers to an ethers \<open>Contract\<close> object, and the wallet functions
  replace it by a new object; listeners belong to the object they were registered on.
  The store lists the objects created so far, each with its number of listeners per event
  name (the code has one handler per name), and \<open>contract\<close> is an index into the store.
\<close>

type_synonym listeners = "event_name \<Rightarrow> nat"

record app =
  contracts :: "listeners list"
  contract :: "nat option"
  userAddress :: "address option"
  vars :: auction_vars
  view :: timer_view
  intervals :: nat                \<comment> \<open>\<open>setInterval(updateTimer, 1000)\<close> timers started\<close>
  drain :: drain_state
  chain_reads :: "chain_read list"   \<comment> \<open>the contract reads issued by initializeAuctionData\<close>

definition app0 :: app where
  "app0 = \<lparr>contracts = [], contract = None, userAddress = None, vars = vars0,
            view = view0, intervals = 0, drain = drain0, chain_reads = []\<rparr>"

definition new_contract :: "app \<Rightarrow> app" where
  \<comment> \<open>\<open>contract = new ethers.Contract(...)\<close>\<close>
  "new_contract a =
     a\<lparr>contracts := contracts a @ [\<lambda>e. 0], contract := Some (length (contracts a))\<rparr>"

definition initializeApp :: "app \<Rightarrow> app" where
  \<comment> \<open>lines 27 and 28; the calls of initializeAuctionData that follow are events of
      their own\<close>
  "initializeApp a = new_contract a"

datatype connect_outcome =
    NoWallet                \<comment> \<open>no \<open>window.ethereum\<close>\<close>
  | RequestFailed           \<comment> \<open>\<open>eth_requestAccounts\<close> rejects\<close>
  | NetworkFailed address   \<comment> \<open>the network check fails, after \<open>userAddress\<close> was assigned\<close>
  | Connected address

definition connectWallet :: "connect_outcome \<Rightarrow> app \<Rightarrow> app" where
  "connectWallet out a =
     (case out of
        NoWallet \<Rightarrow> a
      | RequestFailed \<Rightarrow> a
      | NetworkFailed acct \<Rightarrow> a\<lparr>userAddress := Some acct\<rparr>
      | Connected acct \<Rightarrow> new_contract (a\<lparr>userAddress := Some acct\<rparr>))"

definition disconnectWallet :: "app \<Rightarrow> app" where
  "disconnectWallet a = new_contract (a\<lparr>userAddress := None\<rparr>)"

definition removeAllListeners :: "event_name \<Rightarrow> nat \<Rightarrow> app \<Rightarrow> app" where
  "removeAllListeners e c a = a\<lparr>contracts := (contracts a)[c := (contracts a ! c)(e := 0)]\<rparr>"

definition contract_on :: "event_name \<Rightarrow> nat \<Rightarrow> app \<Rightarrow> app" where
  \<comment> \<open>\<open>contract.on(e, handler)\<close>\<close>
  "contract_on e c a =
     a\<lparr>contracts := (contracts a)[c := (contracts a ! c)(e := Suc ((contracts a ! c) e))]\<rparr>"

definition setupEventListener :: "app \<Rightarrow> app" where
  "setupEventListener a =
     (case contract a of
        None \<Rightarrow> a
      | Some c \<Rightarrow> contract_on DataUpdated c (removeAllListeners DataUpdated c a))"

definition initializeAuctionData :: "chain \<Rightarrow> int \<Rightarrow> app \<Rightarrow> app" where
  \<comment> \<open>one activation, against one chain and with \<open>Date.now()\<close> as read by the first
      \<open>updateTimer\<close>. Every exception ends it in the outer \<open>catch\<close>, which only logs:
      \<open>contract\<close> undefined, the \<open>endTime\<close> read rejecting, \<open>toNumber\<close> throwing in
      \<open>startTimer\<close> (before \<open>setInterval\<close>). A scan that never ends never reaches the
      listener (and its reads, without end, are not logged).\<close>
  "initializeAuctionData ch dateNow a =
     (case contract a of
        None \<Rightarrow> a
      | Some c \<Rightarrow>
          let a0 = a\<lparr>chain_reads := chain_reads a @ [EndTime]\<rparr> in
          (case endTime_read ch of
             None \<Rightarrow> a0
           | Some e \<Rightarrow>
               let a1 = a0\<lparr>vars := (vars a0)\<lparr>endTimeValue := Some e\<rparr>\<rparr> in
               (case updateTimer e dateNow (view a1) of
                  None \<Rightarrow> a1
                | Some v \<Rightarrow>
                    let a2 = a1\<lparr>view := v, intervals := Suc (intervals a1)\<rparr> in
                    (case catch_up ch (vars a2) of
                       None \<Rightarrow> a2
                     | Some (st, reads) \<Rightarrow>
                         contract_on NewBid c
                           (removeAllListeners NewBid c
                              (a2\<lparr>vars := st, chain_reads := chain_reads a2 @ reads\<rparr>))))))"

definition periodic_tick :: "config \<Rightarrow> chain \<Rightarrow> int \<Rightarrow> app \<Rightarrow> app" where
  \<comment> \<open>the \<open>setInterval\<close> callback of startPeriodicUpdates, run at \<open>Date.now()\<close>\<close>
  "periodic_tick cfg ch dateNow a =
     (if dateNow - lastUpdate (cache (drain a)) > CACHE_DURATION cfg
      then initializeAuctionData ch dateNow a else a)"

definition timer_tick :: "int \<Rightarrow> app \<Rightarrow> app" where
  \<comment> \<open>an interval timer runs \<open>updateTimer\<close>, which reads the global \<open>endTimeValue\<close>\<close>
  "timer_tick dateNow a =
     (if intervals a = 0 then a
      else case endTimeValue (vars a) of
             None \<Rightarrow> a
           | Some e \<Rightarrow>
               (case updateTimer e dateNow (view a) of
                  None \<Rightarrow> a
                | Some v \<Rightarrow> a\<lparr>view := v\<rparr>))"

datatype payload = NewBidArgs newbid_event | DataUpdatedArgs int string

fun name_of :: "payload \<Rightarrow> event_name" where
  "name_of (NewBidArgs ev) = NewBid"
| "name_of (DataUpdatedArgs ident txHash) = DataUpdated"

fun handle :: "config \<Rightarrow> payload \<Rightarrow> app \<Rightarrow> app" where
  \<comment> \<open>one invocation of the handler the code registers for the event; the name read
      started by the NewBid handler completes as an event of its own\<close>
  "handle cfg (NewBidArgs ev) a = a\<lparr>vars := onNewBid ev (vars a)\<rparr>"
| "handle cfg (DataUpdatedArgs ident txHash) a =
     a\<lparr>drain := onDataUpdated (BATCH_SIZE cfg) ident txHash (drain a)\<rparr>"

definition emit :: "config \<Rightarrow> nat \<Rightarrow> payload \<Rightarrow> app \<Rightarrow> app" where
  \<comment> \<open>contract object number \<open>c\<close> delivers an event: every listener registered on it under
      the event's name is invoked once\<close>
  "emit cfg c p a =
     (if c < length (contracts a) then (handle cfg p ^^ (contracts a ! c) (name_of p)) a
      else a)"

datatype app_event =
    InitializeApp
  | ConnectWallet connect_outcome
  | DisconnectWallet
  | InitializeAuctionData chain int
  | SetupEventListener
  | PeriodicTick chain int
  | TimerTick int
  | Emit nat payload
  | NameResolved jsstring
  | PromiseSettled nat bool

fun app_step :: "config \<Rightarrow> app_event \<Rightarrow> app \<Rightarrow> app" where
  "app_step cfg InitializeApp a = initializeApp a"
| "app_step cfg (ConnectWallet out) a = connectWallet out a"
| "app_step cfg DisconnectWallet a = disconnectWallet a"
| "app_step cfg (InitializeAuctionData ch dateNow) a = initializeAuctionData ch dateNow a"
| "app_step cfg SetupEventListener a = setupEventListener a"
| "app_step cfg (PeriodicTick ch dateNow) a = periodic_tick cfg ch dateNow a"
| "app_step cfg (TimerTick dateNow) a = timer_tick dateNow a"
| "app_step cfg (Emit c p) a = emit cfg c p a"
| "app_step cfg (NameResolved name) a = a\<lparr>vars := onNewBid_name name (vars a)\<rparr>"
| "app_step cfg (PromiseSettled k ok) a = a\<lparr>drain := resume (BATCH_SIZE cfg) k ok (drain a)\<rparr>"

definition app_run :: "config \<Rightarrow> app_event list \<Rightarrow> app \<Rightarrow> app" where
  "app_run cfg evs a = foldl (\<lambda>a ev. app_step cfg ev a) a evs"



definition single_subscription :: "app \<Rightarrow> bool" where
  \<comment> \<open>no contract object of the store has two listeners under one event name\<close>
  "single_subscription a \<longleftrightarrow> (\<forall>obj\<in>set (contracts a). \<forall>e. obj e \<le> 1)"

section \<open>Sample inputs\<close>

definition bidA :: newbid_event where
  "bidA = \<lparr>nb_bidder = ''0xA11ce'', nb_amount = 1000000000000000, nb_content = js ''first'',
            nb_bidIndex = 1, nb_transactionHash = ''0xaa''\<rparr>"

definition bidB :: newbid_event where
  "bidB = \<lparr>nb_bidder = ''0xB0b'', nb_amount = 2000000000000000, nb_content = js ''second'',
            nb_bidIndex = 2, nb_transactionHash = ''0xbb''\<rparr>"

definition chain3 :: chain where
  \<comment> \<open>a chain holding the bids of indices 0, 1 and 2\<close>
  "chain3 = \<lparr>endTime_read = Some 1800000000,
              bidHistory_read = (\<lambda>i. if i < 3
                  then Some \<lparr>sender = ''0xB0b'', amount = 1000000000000000 * (1 + int i),
                              content = js ''hello''\<rparr>
                  else None),
              addressToName_read = (\<lambda>a. Some (js ''bob''))\<rparr>"

definition chain1 :: chain where
  \<comment> \<open>a chain holding the bid of index 0 only\<close>
  "chain1 = chain3\<lparr>bidHistory_read := (\<lambda>i. if i < 1 then bidHistory_read chain3 i else None)\<rparr>"



definition sample_cfg :: config where
  "sample_cfg = \<lparr>BATCH_SIZE = 10, CACHE_DURATION = 30000\<rparr>"

definition reconnect_run :: "app_event list" where
  \<comment> \<open>page load, a first initialization, the user connects a wallet, and the next
      periodic refresh\<close>
  "reconnect_run =
     [InitializeApp, InitializeAuctionData chain3 1700000000000,
      ConnectWallet (Connected ''0xB0b''), PeriodicTick chain3 1700000030000]"



section \<open>Theorems\<close>

text \<open>
  C6 (minimum-bid computation). The next minimum bid is a function of the current bid
  and the fixed increment alone: it is the increment (0.0004 ether in wei) when no current
  bid is set, and the current bid plus the increment otherwise.
\<close>

theorem nextMinBid_computation:
  "nextMinBid None = minIncrement
   \<and> nextMinBid (Some b) = b + minIncrement
   \<and> minIncrement = 4 * 10 ^ 14"
  by (simp add: nextMinBid_def minIncrement_def)


subsection \<open>Bid submission\<close>

text \<open>
  C1, as amended. For every ledger value \<open>P\<close> read when the modal opens and every
  requested total \<open>T\<close>, whatever its relation to the current bid, a submission whose message
  has at most 256 units makes one contribute call, and the amount attached is \<open>T - P\<close>.
  Nothing tests the sign of that difference.
\<close>

theorem payment_delta:
  assumes "contribute_open st (Some P) = Some modal" and "length message \<le> 256"
  shows "map_option writes (submitBid_onclick ch modal (Some T) message)
           = Some [Contribute message (T - P)]"
  using assms
  by (auto simp: contribute_open_def submitBid_onclick_def Let_def split: tx_reply.splits)

theorem payment_delta_witness:
  "contribute_open (vars0\<lparr>currentBid := Some 1000000000000000\<rparr>) (Some 1000000000000000)
     = Some \<lparr>bidInput_min = 1400000000000000, userFullBid = 1000000000000000\<rparr>
   \<and> length (js ''mine'') \<le> 256
   \<and> map_option writes
        (submitBid_onclick (\<lambda>w. Mined)
           \<lparr>bidInput_min = 1400000000000000, userFullBid = 1000000000000000\<rparr>
           (Some 2000000000000000) (js ''mine''))
       = Some [Contribute (js ''mine'') 1000000000000000]"
proof -
  have a: "contribute_open (vars0\<lparr>currentBid := Some 1000000000000000\<rparr>) (Some 1000000000000000)
     = Some \<lparr>bidInput_min = 1400000000000000, userFullBid = 1000000000000000\<rparr>"
    by (simp add: contribute_open_def nextMinBid_def minIncrement_def vars0_def)
  have b: "length (js ''mine'') \<le> 256" by (simp add: js_def)
  from payment_delta [OF a b, of "\<lambda>w. Mined" 2000000000000000] a b show ?thesis by simp
qed

text \<open>
  C1 as stated fails: with a current bid of 0.001 ether, a ledger value of 0.003 ether
  and a requested total of 0.002 ether (above current bid plus increment), the difference
  is negative and the contribute call is made all the same, with the negative amount.
\<close>

theorem payment_negative_counterexample:
  "contribute_open (vars0\<lparr>currentBid := Some 1000000000000000\<rparr>) (Some 3000000000000000)
     = Some \<lparr>bidInput_min = 1400000000000000, userFullBid = 3000000000000000\<rparr>
   \<and> nextMinBid (Some 1000000000000000) < 2000000000000000
   \<and> (2000000000000000 - 3000000000000000 :: int) < 0
   \<and> map_option writes
        (submitBid_onclick (\<lambda>w. SendFailed ''invalid BigNumber value'')
           \<lparr>bidInput_min = 1400000000000000, userFullBid = 3000000000000000\<rparr>
           (Some 2000000000000000) (js ''mine''))
       = Some [Contribute (js ''mine'') (- 1000000000000000)]"
  by (simp add: contribute_open_def nextMinBid_def minIncrement_def vars0_def
        submitBid_onclick_def js_def)

text \<open>
  C5, as amended. A message of more than 256 units sent with an amount that parses, and a
  name that is empty or longer than 32 units after trimming, end the handler with an error
  status and no contract write; with such a message no contract write is made whatever the
  amount field holds, since an amount that does not parse stops the handler at
  \<open>parseEther\<close>, before the length test. The bid total is not compared with the minimum:
  with a message of at most 256 units the contribute call is made for any total.
\<close>

theorem invalid_input_caught:
  "(256 < length message \<longrightarrow>
      submitBid_onclick ch modal bidInput message
        = (case bidInput of
             None \<Rightarrow> None
           | Some T \<Rightarrow>
               Some \<lparr>writes = [],
                     statuses = [(''Message too long (max 256 characters)'', Error)],
                     modal_closed = False\<rparr>))
   \<and> (js_trim nameInput = [] \<or> 32 < length (js_trim nameInput) \<longrightarrow>
        writes (submitName_onclick ch refresh nameInput) = []
        \<and> (\<exists>m. statuses (submitName_onclick ch refresh nameInput) = [(m, Error)]))
   \<and> (length message \<le> 256 \<longrightarrow>
        map_option writes (submitBid_onclick ch modal (Some T') message)
          = Some [Contribute message (T' - userFullBid modal)])"
  by (auto simp: submitBid_onclick_def submitName_onclick_def Let_def
      split: tx_reply.splits option.splits)

theorem invalid_input_caught_witness:
  "256 < length (replicate 257 (0x61 :: 16 word))
   \<and> submitBid_onclick (\<lambda>w. Mined) \<lparr>bidInput_min = 400000000000000, userFullBid = 0\<rparr>
        (Some 400000000000001) (replicate 257 0x61)
       = Some \<lparr>writes = [], statuses = [(''Message too long (max 256 characters)'', Error)],
               modal_closed = False\<rparr>
   \<and> js_trim (js ''   '') = []
   \<and> writes (submitName_onclick (\<lambda>w. Mined) None (js ''   '')) = []
   \<and> statuses (submitName_onclick (\<lambda>w. Mined) None (js ''   ''))
       = [(''Please enter a name'', Error)]
   \<and> length (js ''ok'') \<le> 256
   \<and> map_option writes
        (submitBid_onclick (\<lambda>w. Mined) \<lparr>bidInput_min = 400000000000000, userFullBid = 0\<rparr>
           (Some 400000000000001) (js ''ok''))
       = Some [Contribute (js ''ok'') 400000000000001]"
proof -
  let ?m = "\<lparr>bidInput_min = 400000000000000, userFullBid = 0\<rparr>"
  have a: "256 < length (replicate 257 (0x61 :: 16 word))" by simp
  have b: "js_trim (js ''   '') = []"
    by (simp add: js_trim_def js_def is_js_whitespace_def)
  have c: "statuses (submitName_onclick (\<lambda>w. Mined) None (js ''   ''))
       = [(''Please enter a name'', Error)]"
    by (simp add: submitName_onclick_def b)
  have d: "length (js ''ok'') \<le> 256" by (simp add: js_def)
  note t1 = invalid_input_caught [where message = "replicate 257 0x61" and ch = "\<lambda>w. Mined"
      and modal = ?m and bidInput = "Some 400000000000001" and nameInput = "js ''   ''"
      and refresh = None and T' = 400000000000001]
  note t2 = invalid_input_caught [where message = "js ''ok''" and ch = "\<lambda>w. Mined"
      and modal = ?m and bidInput = "Some 400000000000001" and nameInput = "js ''   ''"
      and refresh = None and T' = 400000000000001]
  from t1 a have r1: "submitBid_onclick (\<lambda>w. Mined) ?m (Some 400000000000001) (replicate 257 0x61)
       = Some \<lparr>writes = [], statuses = [(''Message too long (max 256 characters)'', Error)],
               modal_closed = False\<rparr>" by simp
  from t1 b have r2: "writes (submitName_onclick (\<lambda>w. Mined) None (js ''   '')) = []" by simp
  from t2 d have r3: "map_option writes
        (submitBid_onclick (\<lambda>w. Mined) ?m (Some 400000000000001) (js ''ok''))
       = Some [Contribute (js ''ok'') 400000000000001]" by simp
  from a r1 b r2 c d r3 show ?thesis by blast
qed

text \<open>
  C5 as stated fails on the sub-minimum bid: with a current bid of 0.001 ether, a total of
  1 wei is below the minimum and the contribute call is made. It also fails for an
  oversized message sent with an amount field that does not parse: the handler stops at
  \<open>parseEther\<close> and shows no status.
\<close>

theorem sub_minimum_bid_counterexample:
  "(1 :: int) \<le> nextMinBid (Some 1000000000000000)
   \<and> length (js ''low'') \<le> 256
   \<and> submitBid_onclick (\<lambda>w. SendFailed ''execution reverted'')
        \<lparr>bidInput_min = 1400000000000000, userFullBid = 0\<rparr> (Some 1) (js ''low'')
       = Some \<lparr>writes = [Contribute (js ''low'') 1],
               statuses = [(''execution reverted'', Error)], modal_closed = False\<rparr>
   \<and> 256 < length (replicate 257 (0x61 :: 16 word))
   \<and> submitBid_onclick (\<lambda>w. Mined) \<lparr>bidInput_min = 1400000000000000, userFullBid = 0\<rparr>
        None (replicate 257 0x61) = None"
  by (simp add: nextMinBid_def minIncrement_def submitBid_onclick_def js_def)

subsection \<open>The current-bid projection\<close>

lemma applyBids_snoc: "applyBids st (evs @ [ev]) = onNewBid ev (applyBids st evs)"
  by (simp add: applyBids_def)

lemma applyBids_last:
  assumes "evs \<noteq> []"
  shows "applyBids st evs = onNewBid (last evs) (applyBids st (butlast evs))"
proof -
  from assms have "evs = butlast evs @ [last evs]" by simp
  then have "applyBids st evs = applyBids st (butlast evs @ [last evs])" by simp
  then show ?thesis by (simp only: applyBids_snoc)
qed

lemma last_take_Suc: "n < length xs \<Longrightarrow> last (take (Suc n) xs) = xs ! n"
  by (simp add: take_Suc_conv_app_nth)

text \<open>
  C2, evaluated at the failing input: the deliveries \<open>bidA\<close>, \<open>bidB\<close>, \<open>bidA\<close>, the third
  being the first one again (same transaction hash). The NewBid handler applies it a
  second time and the projection goes back from \<open>bidB\<close> to \<open>bidA\<close>.
\<close>

theorem newBid_redelivery_applied_again:
  "nb_transactionHash bidA \<noteq> nb_transactionHash bidB
   \<and> currentBid (applyBids vars0 [bidA, bidB]) = Some 2000000000000000
   \<and> lastBidder (applyBids vars0 [bidA, bidB]) = Some ''0xB0b''
   \<and> currentBid (applyBids vars0 [bidA, bidB, bidA]) = Some 1000000000000000
   \<and> lastBidder (applyBids vars0 [bidA, bidB, bidA]) = Some ''0xA11ce''
   \<and> applyBids vars0 [bidA, bidB, bidA] \<noteq> applyBids vars0 [bidA, bidB]"
  by (simp add: applyBids_def onNewBid_def bidA_def bidB_def vars0_def)

text \<open>
  C3, as amended. Every delivery overwrites the current bid, bidder and message with the
  delivered record, whatever its index, so after a run of deliveries the projection is
  that of the last one. Hence, when the records arrive in non-decreasing index order and
  their amounts do not decrease along that order, the current bid after each apply is at
  least the current bid before it.
\<close>

theorem projection_follows_last_delivery:
  "(evs \<noteq> [] \<longrightarrow>
      currentBid (applyBids st evs) = Some (nb_amount (last evs))
      \<and> lastBidder (applyBids st evs) = Some (nb_bidder (last evs))
      \<and> lastMessage (applyBids st evs) = Some (nb_content (last evs)))
   \<and> (sorted_wrt (\<lambda>a b. nb_bidIndex a \<le> nb_bidIndex b \<and> nb_amount a \<le> nb_amount b) evs
        \<longrightarrow> (\<forall>n. 0 < n \<and> n < length evs \<longrightarrow>
              (\<exists>x y. currentBid (applyBids st (take n evs)) = Some x
                     \<and> currentBid (applyBids st (take (Suc n) evs)) = Some y
                     \<and> x \<le> y)))"
proof -
  have proj: "currentBid (applyBids s es) = Some (nb_amount (last es))
      \<and> lastBidder (applyBids s es) = Some (nb_bidder (last es))
      \<and> lastMessage (applyBids s es) = Some (nb_content (last es))" if "es \<noteq> []" for s es
    using applyBids_last [OF that, of s] by (simp add: onNewBid_def)
  have mono: "\<exists>x y. currentBid (applyBids st (take n evs)) = Some x
                     \<and> currentBid (applyBids st (take (Suc n) evs)) = Some y \<and> x \<le> y"
    if srt: "sorted_wrt (\<lambda>a b. nb_bidIndex a \<le> nb_bidIndex b \<and> nb_amount a \<le> nb_amount b) evs"
      and n: "0 < n" "n < length evs" for n
  proof -
    from n obtain m where m: "n = Suc m" by (cases n) auto
    from n m have ne1: "take n evs \<noteq> []" and ne2: "take (Suc n) evs \<noteq> []" by auto
    have l1: "last (take n evs) = evs ! m" using n m last_take_Suc [of m evs] by simp
    have l2: "last (take (Suc n) evs) = evs ! n" using n last_take_Suc [of n evs] by simp
    from srt n m have "nb_amount (evs ! m) \<le> nb_amount (evs ! n)"
      by (simp add: sorted_wrt_iff_nth_less)
    with proj [OF ne1, of st] proj [OF ne2, of st] l1 l2 show ?thesis by simp
  qed
  from proj mono show ?thesis by blast
qed

theorem projection_follows_last_delivery_witness:
  "[bidA, bidB] \<noteq> []
   \<and> currentBid (applyBids vars0 [bidA, bidB]) = Some (nb_amount bidB)
   \<and> sorted_wrt (\<lambda>a b. nb_bidIndex a \<le> nb_bidIndex b \<and> nb_amount a \<le> nb_amount b) [bidA, bidB]
   \<and> (\<exists>x y. currentBid (applyBids vars0 (take 1 [bidA, bidB])) = Some x
            \<and> currentBid (applyBids vars0 (take (Suc 1) [bidA, bidB])) = Some y \<and> x \<le> y)"
proof -
  have s: "sorted_wrt (\<lambda>a b. nb_bidIndex a \<le> nb_bidIndex b \<and> nb_amount a \<le> nb_amount b)
             [bidA, bidB]"
    by (simp add: bidA_def bidB_def)
  have ne: "[bidA, bidB] \<noteq> []" by simp
  note t = projection_follows_last_delivery [of "[bidA, bidB]" vars0]
  from t ne have p: "currentBid (applyBids vars0 [bidA, bidB]) = Some (nb_amount bidB)"
    by simp
  from t s have "\<forall>n. 0 < n \<and> n < length [bidA, bidB] \<longrightarrow>
      (\<exists>x y. currentBid (applyBids vars0 (take n [bidA, bidB])) = Some x
             \<and> currentBid (applyBids vars0 (take (Suc n) [bidA, bidB])) = Some y \<and> x \<le> y)"
    by blast
  from this [rule_format, of 1]
  have q: "\<exists>x y. currentBid (applyBids vars0 (take 1 [bidA, bidB])) = Some x
            \<and> currentBid (applyBids vars0 (take (Suc 1) [bidA, bidB])) = Some y \<and> x \<le> y"
    by simp
  from ne p s q show ?thesis by blast
qed

text \<open>
  C3 as stated fails: \<open>bidB\<close> (index 2) delivered first and \<open>bidA\<close> (index 1) after it
  leave the current bid, bidder and message at those of \<open>bidA\<close>, the older record.
\<close>

theorem lower_index_regresses_counterexample:
  "nb_bidIndex bidA < nb_bidIndex bidB
   \<and> currentBid (applyBids vars0 [bidB]) = Some 2000000000000000
   \<and> currentBid (applyBids vars0 [bidB, bidA]) = Some 1000000000000000
   \<and> lastBidder (applyBids vars0 [bidB, bidA]) = Some (nb_bidder bidA)
   \<and> lastMessage (applyBids vars0 [bidB, bidA]) = Some (nb_content bidA)"
  by (simp add: applyBids_def onNewBid_def bidA_def bidB_def vars0_def)

subsection \<open>The catch-up scan\<close>

lemma scan_from_run:
  assumes "\<forall>i. latestIndex < i \<and> i < k \<longrightarrow> bh i \<noteq> None" and "bh k = None" and "latestIndex < k"
  shows "scan_from bh latestIndex probes = Some (k - 1, probes @ [Suc latestIndex..<Suc k])"
  using assms
proof (induction "k - latestIndex" arbitrary: latestIndex probes)
  case 0
  then show ?case by simp
next
  case (Suc d)
  show ?case
  proof (cases "Suc latestIndex = k")
    case True
    with Suc.prems show ?thesis
      by (subst scan_from.simps) auto
  next
    case False
    with Suc.prems have lt: "Suc latestIndex < k" by simp
    with Suc.prems obtain b where b: "bh (Suc latestIndex) = Some b" by auto
    from Suc.hyps(2) have d: "d = k - Suc latestIndex" by simp
    from Suc.prems have rest: "\<forall>i. Suc latestIndex < i \<and> i < k \<longrightarrow> bh i \<noteq> None" by simp
    have "scan_from bh (Suc latestIndex) (probes @ [Suc latestIndex])
            = Some (k - 1, (probes @ [Suc latestIndex]) @ [Suc (Suc latestIndex)..<Suc k])"
      using Suc.hyps(1) [OF d rest Suc.prems(2) lt] .
    moreover have "[Suc latestIndex..<Suc k] = Suc latestIndex # [Suc (Suc latestIndex)..<Suc k]"
      using lt by (simp add: upt_conv_Cons)
    ultimately show ?thesis
      using b by (subst scan_from.simps) simp
  qed
qed

text \<open>
  C4, as amended. When the bids of indices 0 to \<open>k - 1\<close> exist and index \<open>k\<close> does not
  (\<open>k \<ge> 1\<close>), the scan ends with \<open>latestIndex = k - 1\<close> after exactly \<open>k\<close> existence probes,
  at the indices 1 to \<open>k\<close> (index 0 is not probed); the record of index \<open>k - 1\<close> is then read
  once, which makes \<open>k + 1\<close> reads of the bid history, and becomes the current state.
\<close>

theorem catch_up_scan:
  assumes "1 \<le> k" and "\<forall>i<k. bidHistory_read ch i \<noteq> None" and "bidHistory_read ch k = None"
  shows "\<exists>b. bidHistory_read ch (k - 1) = Some b
           \<and> scan_from (bidHistory_read ch) 0 [] = Some (k - 1, [1..<Suc k])
           \<and> length [1..<Suc k] = k
           \<and> map_option snd (catch_up ch st)
               = Some (map BidHistory [1..<Suc k] @ [BidHistory (k - 1), AddressToName (sender b)])
           \<and> map_option (currentBid \<circ> fst) (catch_up ch st) = Some (Some (amount b))
           \<and> map_option (lastBidder \<circ> fst) (catch_up ch st) = Some (Some (sender b))
           \<and> map_option (lastMessage \<circ> fst) (catch_up ch st) = Some (Some (content b))"
proof -
  from assms obtain b where b: "bidHistory_read ch (k - 1) = Some b"
    by (metis diff_less not_None_eq zero_less_one less_le_trans)
  from assms have "\<forall>i. 0 < i \<and> i < k \<longrightarrow> bidHistory_read ch i \<noteq> None" by simp
  from scan_from_run [OF this assms(3), of "[]"] assms(1)
  have scan: "scan_from (bidHistory_read ch) 0 [] = Some (k - 1, [1..<Suc k])" by simp
  show ?thesis
    using b scan by (auto simp: catch_up_def Let_def split: option.splits)
qed

theorem catch_up_scan_witness:
  "(1::nat) \<le> 3
   \<and> bidHistory_read chain3 0 \<noteq> None \<and> bidHistory_read chain3 1 \<noteq> None
   \<and> bidHistory_read chain3 2 \<noteq> None \<and> bidHistory_read chain3 3 = None
   \<and> scan_from (bidHistory_read chain3) 0 [] = Some (2, [1, 2, 3])
   \<and> map_option snd (catch_up chain3 vars0)
       = Some [BidHistory 1, BidHistory 2, BidHistory 3, BidHistory 2, AddressToName ''0xB0b'']
   \<and> map_option (currentBid \<circ> fst) (catch_up chain3 vars0) = Some (Some 3000000000000000)"
proof -
  have a: "(1::nat) \<le> 3" by simp
  have b: "\<forall>i<3. bidHistory_read chain3 i \<noteq> None" by (simp add: chain3_def)
  have b': "bidHistory_read chain3 0 \<noteq> None \<and> bidHistory_read chain3 1 \<noteq> None
            \<and> bidHistory_read chain3 2 \<noteq> None" by (simp add: chain3_def)
  have c: "bidHistory_read chain3 3 = None" by (simp add: chain3_def)
  have d: "bidHistory_read chain3 (3 - 1)
             = Some \<lparr>sender = ''0xB0b'', amount = 3000000000000000, content = js ''hello''\<rparr>"
    by (simp add: chain3_def)
  have e: "[1..<Suc 3] = [1, 2, 3]" by (simp add: upt_conv_Cons)
  from catch_up_scan [OF a b c, of vars0] obtain b0 where
    b0: "bidHistory_read chain3 (3 - 1) = Some b0"
    and sc: "scan_from (bidHistory_read chain3) 0 [] = Some (3 - 1, [1..<Suc 3])"
    and rd: "map_option snd (catch_up chain3 vars0)
               = Some (map BidHistory [1..<Suc 3] @ [BidHistory (3 - 1), AddressToName (sender b0)])"
    and cb: "map_option (currentBid \<circ> fst) (catch_up chain3 vars0) = Some (Some (amount b0))"
    by blast
  from b0 d have b0_eq:
    "b0 = \<lparr>sender = ''0xB0b'', amount = 3000000000000000, content = js ''hello''\<rparr>"
    by simp
  from sc e have sc': "scan_from (bidHistory_read chain3) 0 [] = Some (2, [1, 2, 3])" by simp
  from rd e b0_eq have rd': "map_option snd (catch_up chain3 vars0)
       = Some [BidHistory 1, BidHistory 2, BidHistory 3, BidHistory 2, AddressToName ''0xB0b'']"
    by simp
  from cb b0_eq have cb': "map_option (currentBid \<circ> fst) (catch_up chain3 vars0)
       = Some (Some 3000000000000000)" by simp
  from a b' c sc' rd' cb' show ?thesis by blast
qed

text \<open>
  C4 as stated fails on the number of probes: on a chain holding the bid of index 0 only
  (\<open>k = 1\<close>) the scan makes one existence probe, at index 1, not two.
\<close>

theorem scan_probe_count_counterexample:
  "bidHistory_read chain1 0 \<noteq> None
   \<and> bidHistory_read chain1 1 = None
   \<and> scan_from (bidHistory_read chain1) 0 [] = Some (0, [1])
   \<and> length [1::nat] \<noteq> 1 + 1
   \<and> map_option snd (catch_up chain1 vars0)
       = Some [BidHistory 1, BidHistory 0, AddressToName ''0xB0b'']"
  by (simp add: scan_from.simps chain1_def chain3_def catch_up_def)


subsection \<open>The countdown\<close>

lemma updateTimer_ended:
  assumes "toNumber e = Some n" and "n - t div 1000 \<le> 0"
  shows "updateTimer e t v = Some (v\<lparr>timerText := Some AuctionEnded, contributeDisabled := True\<rparr>)"
  using assms by (simp add: updateTimer_def Let_def)

lemma run_timer_ended_at:
  assumes "toNumber e = Some n" and "j < length ts" and "n - ts ! j div 1000 \<le> 0"
  shows "timerText (run_timer e ts v ! j) = Some AuctionEnded
         \<and> contributeDisabled (run_timer e ts v ! j)"
  using assms(2,3)
proof (induction ts arbitrary: j v)
  case Nil
  then show ?case by simp
next
  case (Cons t ts)
  show ?case
  proof (cases j)
    case 0
    with Cons.prems assms(1) show ?thesis
      by (simp add: updateTimer_ended)
  next
    case (Suc j')
    with Cons.prems Cons.IH [of j'] show ?thesis
      by (simp split: option.splits)
  qed
qed

text \<open>
  C7 (countdown terminality). One timer, a fixed deadline, and the successive values of
  the wall clock in non-decreasing order: once a tick computes \<open>remaining \<le> 0\<close>, that tick
  and every later one show "AUCTION ENDED" and leave the contribute button disabled; none
  shows a running countdown again.
\<close>

theorem countdown_terminal:
  assumes "sorted samples" and "i \<le> j" and "j < length samples"
    and "toNumber endTime = Some n" and "n - samples ! i div 1000 \<le> 0"
  shows "timerText (run_timer endTime samples v ! j) = Some AuctionEnded
         \<and> contributeDisabled (run_timer endTime samples v ! j)"
proof -
  from assms(1-3) have "samples ! i \<le> samples ! j"
    by (simp add: sorted_iff_nth_mono)
  then have "samples ! i div 1000 \<le> samples ! j div 1000"
    by (simp add: zdiv_mono1)
  with assms(5) have "n - samples ! j div 1000 \<le> 0" by simp
  from run_timer_ended_at [OF assms(4) assms(3) this] show ?thesis .
qed

theorem countdown_terminal_witness:
  "sorted [1799999998500, 1800000000000, 1800000000900 :: int]
   \<and> (1::nat) \<le> 2 \<and> (2::nat) < length [1799999998500, 1800000000000, 1800000000900 :: int]
   \<and> toNumber 1800000000 = Some 1800000000
   \<and> 1800000000 - [1799999998500, 1800000000000, 1800000000900 :: int] ! 1 div 1000 \<le> 0
   \<and> timerText (run_timer 1800000000 [1799999998500, 1800000000000, 1800000000900] view0 ! 0)
       = Some (Countdown 0 0 2)
   \<and> timerText (run_timer 1800000000 [1799999998500, 1800000000000, 1800000000900] view0 ! 2)
       = Some AuctionEnded
   \<and> contributeDisabled
       (run_timer 1800000000 [1799999998500, 1800000000000, 1800000000900] view0 ! 2)"
proof -
  have a: "sorted [1799999998500, 1800000000000, 1800000000900 :: int]" by simp
  have b: "(1::nat) \<le> 2" by simp
  have c: "(2::nat) < length [1799999998500, 1800000000000, 1800000000900 :: int]" by simp
  have d: "toNumber 1800000000 = Some 1800000000" by (simp add: toNumber_def)
  have e: "1800000000 - [1799999998500, 1800000000000, 1800000000900 :: int] ! 1 div 1000 \<le> 0"
    by simp
  have f: "timerText (run_timer 1800000000 [1799999998500, 1800000000000, 1800000000900] view0 ! 0)
       = Some (Countdown 0 0 2)"
    by (simp add: updateTimer_def toNumber_def view0_def)
  from countdown_terminal [OF a b c d e, of view0] a b c d e f show ?thesis by blast
qed

subsection \<open>The pending-update queue\<close>






lemma drain_inv_iff: "drain_inv s \<longleftrightarrow> idle s \<or> busy s"
  by (cases "frames s") (auto simp: drain_inv_def idle_def busy_def)

lemma busy_start_batch: "inside s \<Longrightarrow> busy (start_batch B us i s)"
  by (simp add: inside_def busy_def start_batch_def)

lemma busy_take_snapshot: "inside s \<Longrightarrow> busy (take_snapshot B s)"
  by (simp add: take_snapshot_def Let_def inside_def busy_def start_batch_def)

lemma processDataQueue_busy: "isProcessing (cache s) \<Longrightarrow> processDataQueue B s = s"
  by (simp add: processDataQueue_def)

lemma inv_processDataQueue: "drain_inv s \<Longrightarrow> drain_inv (processDataQueue B s)"
proof (cases "isProcessing (cache s)")
  case True
  assume "drain_inv s"
  with True show ?thesis by (simp add: processDataQueue_busy)
next
  case False
  assume "drain_inv s"
  with False have i: "idle s" by (auto simp: drain_inv_iff busy_def)
  then have ins: "inside (set_isProcessing True s)"
    by (simp add: idle_def inside_def set_isProcessing_def)
  show ?thesis
  proof (cases "pendingUpdates (cache s) = []")
    case True
    with False i show ?thesis
      by (simp add: processDataQueue_def Let_def set_isProcessing_def drain_inv_iff idle_def)
  next
    case ne: False
    from busy_take_snapshot [OF ins, of B] ne False show ?thesis
      by (simp add: processDataQueue_def Let_def set_isProcessing_def drain_inv_iff)
  qed
qed

lemma inv_finally_block: "frames s = [] \<Longrightarrow> drain_inv (finally_block B s)"
proof -
  assume f: "frames s = []"
  then have "idle (set_isProcessing False s)"
    by (simp add: idle_def set_isProcessing_def)
  then have i: "drain_inv (set_isProcessing False s)" by (simp add: drain_inv_iff)
  from inv_processDataQueue [OF i, of B] i show ?thesis
    by (simp add: finally_block_def Let_def)
qed

lemma inv_while_head: "inside s \<Longrightarrow> drain_inv (while_head B s)"
  using busy_take_snapshot [of s B] inv_finally_block [of s B]
  by (simp add: while_head_def drain_inv_iff inside_def)

lemma inv_for_step: "inside s \<Longrightarrow> drain_inv (for_step B us i s)"
  using busy_start_batch [of s B us "i + B"] inv_while_head [of s B]
  by (simp add: for_step_def Let_def drain_inv_iff)

lemma resume_single:
  "frames s = [f] \<Longrightarrow>
   resume B 0 ok s =
     (case waiting f of
        AwaitBatch \<Rightarrow>
          if \<not> ok then finally_block B (s\<lparr>frames := []\<rparr>)
          else if pos f + B < length (updates f) then
            s\<lparr>frames := [f\<lparr>waiting := AwaitDelay\<rparr>], actions := actions s @ [Delay 100]\<rparr>
          else for_step B (updates f) (pos f) (s\<lparr>frames := []\<rparr>)
      | AwaitDelay \<Rightarrow> for_step B (updates f) (pos f) (s\<lparr>frames := []\<rparr>))"
  by (simp add: resume_def Let_def split: drain_wait.splits)

lemma inv_resume: "drain_inv s \<Longrightarrow> drain_inv (resume B k ok s)"
proof (cases "k < length (frames s)")
  case False
  assume "drain_inv s"
  with False show ?thesis by (simp add: resume_def)
next
  case True
  assume inv: "drain_inv s"
  with True have b: "busy s" by (auto simp: drain_inv_iff idle_def)
  with True have k: "k = 0" by (simp add: busy_def)
  from b obtain f where f: "frames s = [f]"
    by (cases "frames s") (auto simp: busy_def)
  from b have ins: "inside (s\<lparr>frames := []\<rparr>)" by (simp add: inside_def busy_def)
  then have fr: "frames (s\<lparr>frames := []\<rparr>) = []" by (simp add: inside_def)
  have d: "busy (s\<lparr>frames := [f\<lparr>waiting := AwaitDelay\<rparr>], actions := actions s @ [Delay 100]\<rparr>)"
    using b by (simp add: busy_def)
  show ?thesis
    unfolding k resume_single [OF f]
    using d inv_finally_block [OF fr, of B] inv_for_step [OF ins, of B "updates f" "pos f"]
    by (simp add: drain_inv_iff split: drain_wait.splits)
qed

lemma inv_onDataUpdated: "drain_inv s \<Longrightarrow> drain_inv (onDataUpdated B ident txHash s)"
proof -
  assume inv: "drain_inv s"
  have a: "drain_inv (s\<lparr>cache := c\<rparr>)" if "isProcessing c = isProcessing (cache s)" for c
    using inv that by (simp add: drain_inv_def)
  show ?thesis
    by (auto simp: onDataUpdated_def Let_def inv a split: option.splits
        intro!: inv_processDataQueue a)
qed

lemma inv_drain_step: "drain_inv s \<Longrightarrow> drain_inv (drain_step B ev s)"
  by (cases ev) (simp_all add: inv_onDataUpdated inv_resume)

lemma inv_drain_run: "drain_inv s \<Longrightarrow> drain_inv (drain_run B evs s)"
  unfolding drain_run_def
  by (induction evs arbitrary: s) (simp_all add: inv_drain_step)

lemma inv_drain0: "drain_inv drain0"
  by (simp add: drain_inv_def drain0_def dataCache0_def)

























text \<open>
  The DataUpdated handler on its side applies an event once: a second delivery with the
  same transaction hash leaves the state as the first one left it.
\<close>

lemma processed_processDataQueue:
  "processedTransactions (cache (processDataQueue B s)) = processedTransactions (cache s)"
  by (simp add: processDataQueue_def Let_def set_isProcessing_def take_snapshot_def
      start_batch_def)

lemma onDataUpdated_idempotent:
  "onDataUpdated B ident txHash (onDataUpdated B ident txHash s) = onDataUpdated B ident txHash s"
proof -
  have "txHash \<in> processedTransactions (cache (onDataUpdated B ident txHash s))"
    by (simp add: onDataUpdated_def Let_def processed_processDataQueue split: option.splits)
  then show ?thesis by (subst (1) onDataUpdated_def) simp
qed

subsection \<open>The periodic refresh\<close>















lemma contracts_handle_pow: "contracts ((handle cfg p ^^ n) a) = contracts a"
proof (induction n)
  case 0
  then show ?case by simp
next
  case (Suc n)
  then show ?case by (cases p) simp_all
qed





lemmas app_eval =
  app_run_def initializeApp_def new_contract_def initializeAuctionData_def
  updateTimer_def toNumber_def catch_up_def scan_from.simps chain3_def contract_on_def
  removeAllListeners_def connectWallet_def app0_def periodic_tick_def drain0_def
  dataCache0_def view0_def vars0_def sample_cfg_def reconnect_run_def emit_def





subsection \<open>Listeners\<close>

lemma single_new_contract: "single_subscription a \<Longrightarrow> single_subscription (new_contract a)"
  by (auto simp: single_subscription_def new_contract_def)

lemma single_cong: "contracts a = contracts b \<Longrightarrow> single_subscription a = single_subscription b"
  by (simp add: single_subscription_def)

lemma single_relisten:
  assumes "single_subscription a"
  shows "single_subscription (contract_on e c (removeAllListeners e c a))"
proof (cases "c < length (contracts a)")
  case True
  have "obj e' \<le> 1"
    if "obj \<in> set ((contracts a)[c := ((contracts a ! c)(e := 0))(e := Suc 0)])" for obj e'
  proof -
    from that have "obj = ((contracts a ! c)(e := 0))(e := Suc 0) \<or> obj \<in> set (contracts a)"
      by (auto dest: set_update_subset_insert [THEN subsetD])
    with assms True show ?thesis
      by (auto simp: single_subscription_def)
  qed
  with True show ?thesis
    by (simp add: single_subscription_def contract_on_def removeAllListeners_def)
next
  case False
  then have "contracts (contract_on e c (removeAllListeners e c a)) = contracts a"
    by (simp add: contract_on_def removeAllListeners_def list_update_beyond not_less)
  from single_cong [OF this] assms show ?thesis by simp
qed

lemma contracts_initializeAuctionData:
  "contracts (initializeAuctionData ch t a) = contracts a
   \<or> (\<exists>c. contracts (initializeAuctionData ch t a)
            = contracts (contract_on NewBid c (removeAllListeners NewBid c a)))"
  by (auto simp: initializeAuctionData_def Let_def contract_on_def removeAllListeners_def
      split: option.splits prod.splits)

lemma single_initializeAuctionData:
  assumes "single_subscription a"
  shows "single_subscription (initializeAuctionData ch t a)"
  using contracts_initializeAuctionData [of ch t a]
proof
  assume "contracts (initializeAuctionData ch t a) = contracts a"
  from single_cong [OF this] assms show ?thesis by simp
next
  assume "\<exists>c. contracts (initializeAuctionData ch t a)
            = contracts (contract_on NewBid c (removeAllListeners NewBid c a))"
  then obtain c where "contracts (initializeAuctionData ch t a)
            = contracts (contract_on NewBid c (removeAllListeners NewBid c a))" ..
  from single_cong [OF this] single_relisten [OF assms, of NewBid c] show ?thesis by simp
qed

lemma single_app_step: "single_subscription a \<Longrightarrow> single_subscription (app_step cfg ev a)"
proof (cases ev)
  case InitializeApp
  assume "single_subscription a"
  then show ?thesis by (simp add: InitializeApp initializeApp_def single_new_contract)
next
  case (ConnectWallet out)
  assume s: "single_subscription a"
  then have "single_subscription (a\<lparr>userAddress := u\<rparr>)" for u
    by (simp add: single_subscription_def)
  with s show ?thesis
    by (cases out) (simp_all add: ConnectWallet connectWallet_def single_new_contract)
next
  case DisconnectWallet
  assume s: "single_subscription a"
  then have "single_subscription (a\<lparr>userAddress := None\<rparr>)"
    by (simp add: single_subscription_def)
  then show ?thesis by (simp add: DisconnectWallet disconnectWallet_def single_new_contract)
next
  case (InitializeAuctionData ch t)
  assume "single_subscription a"
  then show ?thesis by (simp add: InitializeAuctionData single_initializeAuctionData)
next
  case SetupEventListener
  assume "single_subscription a"
  then show ?thesis
    by (simp add: SetupEventListener setupEventListener_def single_relisten split: option.splits)
next
  case (PeriodicTick ch t)
  assume "single_subscription a"
  then show ?thesis
    by (simp add: PeriodicTick periodic_tick_def single_initializeAuctionData)
next
  case (TimerTick t)
  assume "single_subscription a"
  then show ?thesis
    by (simp add: TimerTick timer_tick_def single_subscription_def split: option.splits)
next
  case (Emit c p)
  assume "single_subscription a"
  then show ?thesis
    by (simp add: Emit emit_def single_subscription_def contracts_handle_pow)
next
  case (NameResolved n)
  assume "single_subscription a"
  then show ?thesis by (simp add: NameResolved single_subscription_def)
next
  case (PromiseSettled k ok)
  assume "single_subscription a"
  then show ?thesis by (simp add: PromiseSettled single_subscription_def)
qed

text \<open>
  What does hold of the listeners: on each contract object taken by itself, no event name
  ever has more than one listener.
\<close>

lemma listeners_per_contract_object: "single_subscription (app_run cfg evs app0)"
proof -
  have "single_subscription a \<Longrightarrow> single_subscription (app_run cfg evs a)" for a
    unfolding app_run_def
    by (induction evs arbitrary: a) (simp_all add: single_app_step)
  moreover have "single_subscription app0" by (simp add: single_subscription_def app0_def)
  ultimately show ?thesis by blast
qed

text \<open>
  C10, evaluated at the failing input: page load, a first initialization, a wallet
  connection (which replaces the contract object) and the next periodic refresh. The store
  then holds two contract objects with one NewBid listener each, the replaced object having
  kept its own: an event emitted by either object runs the handler.
\<close>

theorem listeners_after_reconnect:
  "map (\<lambda>obj. obj NewBid) (contracts (app_run sample_cfg reconnect_run app0)) = [1, 1]
   \<and> contract (app_run sample_cfg reconnect_run app0) = Some 1
   \<and> currentBid (vars (app_run sample_cfg (reconnect_run @ [Emit 0 (NewBidArgs bidB)]) app0))
       = Some (nb_amount bidB)
   \<and> currentBid (vars (app_run sample_cfg
        (reconnect_run @ [Emit 0 (NewBidArgs bidB), Emit 1 (NewBidArgs bidA)]) app0))
       = Some (nb_amount bidA)"
  by (simp add: app_eval onNewBid_def bidA_def bidB_def)

end
